theory Spec2Isabelle
  imports Main "HOL-Library.Product_Lexorder" "HOL-Library.Multiset"
begin

section \<open>The silo inventory service of \<^verbatim>\<open>backend/app.py\<close>\<close>

text \<open>
  The service keeps two tables, \<^verbatim>\<open>silos\<close> and \<^verbatim>\<open>operations\<close>, behind a handful of
  HTTP handlers. Each handler is embedded as a function from the committed content of
  the store (and the request) to the response and the content of the store afterwards.
  A handler that returns before \<^verbatim>\<open>db.commit()\<close> leaves the store as it was: the session
  is closed in the \<^verbatim>\<open>finally\<close> block and its pending changes are dropped.

  Modelling decisions, all of them about what lies outside the source file:
  \<^item> integers are Python's unbounded integers (\<open>int\<close>); the width of the \<^verbatim>\<open>Integer\<close>
    column and the length of the \<^verbatim>\<open>String\<close> columns are not enforced, as in the SQLite
    store the service falls back to;
  \<^item> the primary key of a new row and the value of \<^verbatim>\<open>datetime.utcnow()\<close> come from the
    store and the clock, so they are arguments of the handler that inserts the row;
  \<^item> a JSON body is given by the values \<^verbatim>\<open>body.get\<close> returns for the keys a handler
    reads: \<open>None\<close> for a missing key or \<^verbatim>\<open>null\<close>, a string for \<^verbatim>\<open>name\<close> and \<^verbatim>\<open>cereal\<close>, an
    integer for \<^verbatim>\<open>amount\<close>;
  \<^item> a string is a list of 8-bit characters, so text is covered as far as its code
    points lie below 256;
  \<^item> \<^verbatim>\<open>fmt_ts\<close> only formats a timestamp for display; an entry of the summary carries
    the stored instant itself.
\<close>

subsection \<open>Tables\<close>

record Silo =
  Silo_id :: int
  Silo_name :: string
  Silo_cereal :: "string option"
  Silo_balance_kg :: int
  Silo_created_at :: int

record Operation =
  Operation_id :: int
  Operation_silo_id :: int
  Operation_type :: string
  Operation_amount :: int
  Operation_created_at :: int

record db =
  silos :: "Silo list"
  operations :: "Operation list"

definition empty_db :: db where
  "empty_db = \<lparr>silos = [], operations = []\<rparr>"

definition ALLOWED_CEREALES :: "string set" where
  "ALLOWED_CEREALES = {''Soja'', ''Maiz'', ''Trigo'', ''Girasol''}"

subsection \<open>Responses\<close>

text \<open>
  One constructor for each kind of error response of the handlers:
  \<^item> \<open>InvalidInput\<close>: status 400 with \<^verbatim>\<open>El nombre es obligatorio.\<close>,
    \<^verbatim>\<open>El nuevo nombre es obligatorio.\<close>, \<^verbatim>\<open>La cantidad debe ser mayor a 0.\<close> or
    \<^verbatim>\<open>Debe seleccionar el cereal (Soja, Maiz, Trigo, Girasol).\<close>;
  \<^item> \<open>NotFound\<close>: status 404 with \<^verbatim>\<open>Silo no encontrado.\<close>;
  \<^item> \<open>DuplicateName\<close>: status 409 with \<^verbatim>\<open>Ya existe un silo con ese nombre.\<close>;
  \<^item> \<open>CerealMismatch\<close>: status 400 with \<^verbatim>\<open>El silo ya almacena ... No puede cambiarse.\<close>;
  \<^item> \<open>InsufficientStock\<close>: status 400 with \<^verbatim>\<open>No hay suficiente stock en el silo.\<close>.
\<close>

datatype error = InvalidInput | NotFound | DuplicateName | CerealMismatch | InsufficientStock

text \<open>An exception that no handler catches (the request ends with status 500).\<close>

datatype py_error = AttributeError

subsection \<open>Python and query helpers\<close>

text \<open>
  \<^verbatim>\<open>str.strip()\<close> without argument removes leading and trailing whitespace, that is the
  characters for which \<^verbatim>\<open>str.isspace\<close> holds. A character of the model is a code point
  below 256; among these Python counts as whitespace U+0009 to U+000D, U+001C to U+001F,
  U+0020, and also U+0085 (next line) and U+00A0 (no-break space).
\<close>

definition isspace :: "char \<Rightarrow> bool" where
  "isspace c = (c \<in> {CHR 0x09, CHR 0x0A, CHR 0x0B, CHR 0x0C, CHR 0x0D,
                       CHR 0x1C, CHR 0x1D, CHR 0x1E, CHR 0x1F, CHR 0x20,
                       CHR 0x85, CHR 0xA0})"

definition strip :: "string \<Rightarrow> string" where
  "strip s = rev (dropWhile isspace (rev (dropWhile isspace s)))"

text \<open>\<^verbatim>\<open>x or d\<close> where \<^verbatim>\<open>x\<close> is \<^verbatim>\<open>None\<close> or a string, and where it is \<^verbatim>\<open>None\<close> or an integer.\<close>

definition or_str :: "string option \<Rightarrow> string \<Rightarrow> string" where
  "or_str x d = (case x of None \<Rightarrow> d | Some s \<Rightarrow> if s = [] then d else s)"

definition or_int :: "int option \<Rightarrow> int \<Rightarrow> int" where
  "or_int x d = (case x of None \<Rightarrow> d | Some n \<Rightarrow> if n = 0 then d else n)"

text \<open>The truth value of an optional string: \<^verbatim>\<open>None\<close> and \<^verbatim>\<open>""\<close> are false.\<close>

definition truthy :: "string option \<Rightarrow> bool" where
  "truthy x = (case x of None \<Rightarrow> False | Some s \<Rightarrow> s \<noteq> [])"

text \<open>\<^verbatim>\<open>db.query(Silo).get(silo_id)\<close>: the row with that primary key, if any.\<close>

definition get_silo :: "db \<Rightarrow> int \<Rightarrow> Silo option" where
  "get_silo d i = find (\<lambda>s. Silo_id s = i) (silos d)"

text \<open>Writing back the attributes of a loaded row at commit.\<close>

definition update_silo :: "Silo \<Rightarrow> Silo list \<Rightarrow> Silo list" where
  "update_silo s xs = map (\<lambda>x. if Silo_id x = Silo_id s then s else x) xs"

text \<open>The unique constraint on \<^verbatim>\<open>silos.name\<close>, checked against the other rows.\<close>

definition name_taken :: "db \<Rightarrow> int \<Rightarrow> string \<Rightarrow> bool" where
  "name_taken d i n = (\<exists>x \<in> set (silos d). Silo_id x \<noteq> i \<and> Silo_name x = n)"

subsection \<open>Handlers\<close>

definition create_silo :: "db \<Rightarrow> string option \<Rightarrow> int \<Rightarrow> int \<Rightarrow> (error + int) \<times> db" where
  "create_silo d body_name new_id now =
     (let name = strip (or_str body_name [])
      in if name = [] then (Inl InvalidInput, d)
         else if (\<exists>x \<in> set (silos d). Silo_name x = name) then (Inl DuplicateName, d)
         else (Inr new_id,
               d\<lparr>silos := silos d @
                   [\<lparr>Silo_id = new_id, Silo_name = name, Silo_cereal = None,
                     Silo_balance_kg = 0, Silo_created_at = now\<rparr>]\<rparr>))"

definition rename_silo :: "db \<Rightarrow> int \<Rightarrow> string option \<Rightarrow> (error + unit) \<times> db" where
  "rename_silo d silo_id body_name =
     (let new_name = strip (or_str body_name [])
      in if new_name = [] then (Inl InvalidInput, d)
         else case get_silo d silo_id of
                None \<Rightarrow> (Inl NotFound, d)
              | Some s \<Rightarrow>
                  if name_taken d silo_id new_name then (Inl DuplicateName, d)
                  else (Inr (), d\<lparr>silos := update_silo (s\<lparr>Silo_name := new_name\<rparr>) (silos d)\<rparr>))"

text \<open>
  \<^verbatim>\<open>db.delete(s)\<close> removes the row and, through the \<^verbatim>\<open>cascade="all, delete"\<close> of
  \<^verbatim>\<open>Silo.operations\<close>, every operation whose \<^verbatim>\<open>silo_id\<close> is the row's key.
\<close>

definition delete_silo :: "db \<Rightarrow> int \<Rightarrow> (error + unit) \<times> db" where
  "delete_silo d silo_id =
     (case get_silo d silo_id of
        None \<Rightarrow> (Inl NotFound, d)
      | Some s \<Rightarrow>
          (Inr (), \<lparr>silos = filter (\<lambda>x. Silo_id x \<noteq> Silo_id s) (silos d),
                    operations = filter (\<lambda>opn. Operation_silo_id opn \<noteq> Silo_id s) (operations d)\<rparr>))"

definition cargar ::
  "db \<Rightarrow> int \<Rightarrow> int option \<Rightarrow> string option \<Rightarrow> int \<Rightarrow> int \<Rightarrow> (error + int \<times> string option) \<times> db" where
  "cargar d silo_id body_amount cereal new_id now =
     (let amount = or_int body_amount 0
      in if amount \<le> 0 then (Inl InvalidInput, d)
         else case get_silo d silo_id of
                None \<Rightarrow> (Inl NotFound, d)
              | Some s \<Rightarrow>
                  let fresh = (Silo_balance_kg s = 0 \<and> Silo_cereal s = None)
                  in if fresh \<and> (\<not> truthy cereal \<or> cereal \<notin> Some ` ALLOWED_CEREALES)
                     then (Inl InvalidInput, d)
                     else
                       let s1 = (if fresh then s\<lparr>Silo_cereal := cereal\<rparr> else s)
                       in if truthy (Silo_cereal s1) \<and> truthy cereal \<and> cereal \<noteq> Silo_cereal s1
                          then (Inl CerealMismatch, d)
                          else
                            let s2 = s1\<lparr>Silo_balance_kg := Silo_balance_kg s1 + amount\<rparr>;
                                rec = \<lparr>Operation_id = new_id, Operation_silo_id = Silo_id s2,
                                      Operation_type = ''CARGA'', Operation_amount = amount,
                                      Operation_created_at = now\<rparr>
                            in (Inr (Silo_balance_kg s2, Silo_cereal s2),
                                \<lparr>silos = update_silo s2 (silos d),
                                 operations = operations d @ [rec]\<rparr>))"

definition descargar :: "db \<Rightarrow> int \<Rightarrow> int option \<Rightarrow> int \<Rightarrow> int \<Rightarrow> (error + int) \<times> db" where
  "descargar d silo_id body_amount new_id now =
     (let amount = or_int body_amount 0
      in if amount \<le> 0 then (Inl InvalidInput, d)
         else case get_silo d silo_id of
                None \<Rightarrow> (Inl NotFound, d)
              | Some s \<Rightarrow>
                  if Silo_balance_kg s - amount < 0 then (Inl InsufficientStock, d)
                  else
                    let s2 = s\<lparr>Silo_balance_kg := Silo_balance_kg s - amount\<rparr>;
                        rec = \<lparr>Operation_id = new_id, Operation_silo_id = Silo_id s2,
                              Operation_type = ''DESCARGA'', Operation_amount = amount,
                              Operation_created_at = now\<rparr>
                    in (Inr (Silo_balance_kg s2),
                        \<lparr>silos = update_silo s2 (silos d),
                         operations = operations d @ [rec]\<rparr>))"

subsection \<open>The summary\<close>

record entry =
  entry_id :: int
  entry_silo_id :: int
  entry_silo_name :: "string option"
  entry_type :: string
  entry_amount :: int
  entry_timestamp :: int
  entry_balance_kg_post :: "int option"

text \<open>
  \<^verbatim>\<open>order_by(Operation.created_at.desc(), Operation.id.desc())\<close>: ascending in the
  negated pair, compared lexicographically.
\<close>

definition order_by_desc :: "Operation list \<Rightarrow> Operation list" where
  "order_by_desc ops = sort_key (\<lambda>opn. (- Operation_created_at opn, - Operation_id opn)) ops"

text \<open>
  The dictionary built for one operation. \<^verbatim>\<open>o.silo\<close> is the row \<^verbatim>\<open>o.silo_id\<close> refers to, or
  \<^verbatim>\<open>None\<close>. The balance is read as \<^verbatim>\<open>db.query(Silo).get(o.silo_id).balance_kg\<close> whenever
  \<^verbatim>\<open>o.silo_id\<close> is true (not zero): when no such row exists, the attribute is read from
  \<^verbatim>\<open>None\<close> and Python raises \<^verbatim>\<open>AttributeError\<close>.
\<close>

definition resumen_entry :: "db \<Rightarrow> Operation \<Rightarrow> py_error + entry" where
  "resumen_entry d opn =
     (let silo_name = (case get_silo d (Operation_silo_id opn) of
                         Some s \<Rightarrow> Some (Silo_name s) | None \<Rightarrow> None)
      in if Operation_silo_id opn \<noteq> 0
         then (case get_silo d (Operation_silo_id opn) of
                 None \<Rightarrow> Inl AttributeError
               | Some s \<Rightarrow>
                   Inr \<lparr>entry_id = Operation_id opn, entry_silo_id = Operation_silo_id opn,
                        entry_silo_name = silo_name, entry_type = Operation_type opn,
                        entry_amount = Operation_amount opn,
                        entry_timestamp = Operation_created_at opn,
                        entry_balance_kg_post = Some (Silo_balance_kg s)\<rparr>)
         else Inr \<lparr>entry_id = Operation_id opn, entry_silo_id = Operation_silo_id opn,
                   entry_silo_name = silo_name, entry_type = Operation_type opn,
                   entry_amount = Operation_amount opn,
                   entry_timestamp = Operation_created_at opn,
                   entry_balance_kg_post = None\<rparr>)"

text \<open>The loop \<^verbatim>\<open>for o in ops: data.append(...)\<close>; an exception ends it.\<close>

fun resumen_loop :: "db \<Rightarrow> Operation list \<Rightarrow> entry list \<Rightarrow> py_error + entry list" where
  "resumen_loop d [] data = Inr data"
| "resumen_loop d (opn # ops) data =
     (case resumen_entry d opn of
        Inl e \<Rightarrow> Inl e
      | Inr x \<Rightarrow> resumen_loop d ops (data @ [x]))"

definition resumen :: "db \<Rightarrow> py_error + entry list" where
  "resumen d = resumen_loop d (order_by_desc (operations d)) []"

subsection \<open>Reachable stores\<close>

text \<open>
  The stores the service can be in: the empty store, and what any handler leaves behind.
  The key the store gives a new row is positive and not in use in its table.
\<close>

inductive reachable :: "db \<Rightarrow> bool" where
  init: "reachable empty_db"
| create: "reachable d \<Longrightarrow> 0 < new_id \<Longrightarrow> new_id \<notin> Silo_id ` set (silos d)
           \<Longrightarrow> reachable (snd (create_silo d body_name new_id now))"
| rename: "reachable d \<Longrightarrow> reachable (snd (rename_silo d silo_id body_name))"
| delete: "reachable d \<Longrightarrow> reachable (snd (delete_silo d silo_id))"
| load: "reachable d \<Longrightarrow> 0 < new_id \<Longrightarrow> new_id \<notin> Operation_id ` set (operations d)
         \<Longrightarrow> reachable (snd (cargar d silo_id body_amount cereal new_id now))"
| unload: "reachable d \<Longrightarrow> 0 < new_id \<Longrightarrow> new_id \<notin> Operation_id ` set (operations d)
           \<Longrightarrow> reachable (snd (descargar d silo_id body_amount new_id now))"

subsection \<open>Constraints of the schema\<close>

text \<open>
  What the tables declare and the handlers maintain: primary keys are unique (and, being
  generated, positive), \<^verbatim>\<open>balance_non_negative\<close> holds, \<^verbatim>\<open>operations.silo_id\<close> refers to a
  row of \<^verbatim>\<open>silos\<close>, and a silo without a cereal is empty while a cereal, once set, is an
  allowed one.
\<close>

definition store_ok :: "db \<Rightarrow> bool" where
  "store_ok d =
     (distinct (map Silo_id (silos d)) \<and>
      distinct (map Operation_id (operations d)) \<and>
      (\<forall>s \<in> set (silos d). 0 < Silo_id s \<and> 0 \<le> Silo_balance_kg s \<and>
         (case Silo_cereal s of
            None \<Rightarrow> Silo_balance_kg s = 0
          | Some c \<Rightarrow> c \<in> ALLOWED_CEREALES)) \<and>
      (\<forall>p \<in> set (operations d). Operation_silo_id p \<in> Silo_id ` set (silos d)))"

subsection \<open>The summary as the specification words it\<close>

text \<open>
  Following the specification's words, not the code: an operation comes before another
  when it was created later, ties broken by the larger id; and the entry of an operation
  carries the operation's own fields with the name and the balance its silo has now.
\<close>

definition more_recent :: "Operation \<Rightarrow> Operation \<Rightarrow> bool" where
  "more_recent a b =
     (Operation_created_at b < Operation_created_at a \<or>
      (Operation_created_at a = Operation_created_at b \<and> Operation_id b < Operation_id a))"

definition point_in_time_entry :: "db \<Rightarrow> Operation \<Rightarrow> entry" where
  "point_in_time_entry d p =
     \<lparr>entry_id = Operation_id p, entry_silo_id = Operation_silo_id p,
      entry_silo_name = map_option Silo_name (get_silo d (Operation_silo_id p)),
      entry_type = Operation_type p, entry_amount = Operation_amount p,
      entry_timestamp = Operation_created_at p,
      entry_balance_kg_post = map_option Silo_balance_kg (get_silo d (Operation_silo_id p))\<rparr>"

subsection \<open>Example stores\<close>

text \<open>
  The stores of the scenario \<^verbatim>\<open>create "A"; load(A, 100, "Soja"); unload(A, 100)\<close>, with
  keys 1, 2, ... and the clock at 10, 20, 30.
\<close>

definition silo_A :: "string option \<Rightarrow> int \<Rightarrow> Silo" where
  "silo_A c b = \<lparr>Silo_id = 1, Silo_name = ''A'', Silo_cereal = c,
                 Silo_balance_kg = b, Silo_created_at = 10\<rparr>"

definition op_load :: Operation where
  "op_load = \<lparr>Operation_id = 1, Operation_silo_id = 1, Operation_type = ''CARGA'',
               Operation_amount = 100, Operation_created_at = 20\<rparr>"

definition op_unload :: Operation where
  "op_unload = \<lparr>Operation_id = 2, Operation_silo_id = 1, Operation_type = ''DESCARGA'',
                 Operation_amount = 100, Operation_created_at = 30\<rparr>"

definition db_created :: db where
  "db_created = \<lparr>silos = [silo_A None 0], operations = []\<rparr>"

definition db_loaded :: db where
  "db_loaded = \<lparr>silos = [silo_A (Some ''Soja'') 100], operations = [op_load]\<rparr>"

definition db_emptied :: db where
  "db_emptied = \<lparr>silos = [silo_A (Some ''Soja'') 0], operations = [op_load, op_unload]\<rparr>"

text \<open>
  The stores of the scenario \<^verbatim>\<open>create "A"; load(A, 100, "Soja"); create "B"\<close> and of
  the same scenario followed by renaming A to \<^verbatim>\<open>"A2"\<close>.
\<close>

definition silo_B :: Silo where
  "silo_B = \<lparr>Silo_id = 2, Silo_name = ''B'', Silo_cereal = None,
              Silo_balance_kg = 0, Silo_created_at = 25\<rparr>"

definition db_two :: db where
  "db_two = \<lparr>silos = [silo_A (Some ''Soja'') 100, silo_B], operations = [op_load]\<rparr>"

definition db_renamed :: db where
  "db_renamed = \<lparr>silos = [(silo_A (Some ''Soja'') 100)\<lparr>Silo_name := ''A2''\<rparr>, silo_B],
                 operations = [op_load]\<rparr>"

text \<open>
  A store no handler produces: the operation refers to silo 1 and the table of silos
  is empty (the row was removed behind the service's back, in a store that does not
  enforce the foreign key).
\<close>

definition db_orphan :: db where
  "db_orphan = \<lparr>silos = [], operations = [op_load]\<rparr>"

section \<open>Properties\<close>

subsection \<open>Lookups and updates\<close>

lemma or_int_Some: "or_int (Some a) 0 = a"
  by (simp add: or_int_def)

lemma get_silo_Some: "get_silo d i = Some s \<Longrightarrow> s \<in> set (silos d) \<and> Silo_id s = i"
  by (auto simp: get_silo_def find_Some_iff)

lemma get_silo_None: "get_silo d i = None \<longleftrightarrow> i \<notin> Silo_id ` set (silos d)"
  by (auto simp: get_silo_def find_None_iff)

lemma get_silo_distinct:
  assumes dist: "distinct (map Silo_id (silos d))" and mem: "s \<in> set (silos d)"
  shows "get_silo d (Silo_id s) = Some s"
proof -
  have "get_silo d (Silo_id s) \<noteq> None" using mem by (simp add: get_silo_None)
  then obtain t where t: "get_silo d (Silo_id s) = Some t" by blast
  then have "t \<in> set (silos d)" "Silo_id t = Silo_id s" using get_silo_Some by blast+
  then have "t = s" using dist mem by (meson distinct_map inj_onD)
  with t show ?thesis by simp
qed

lemma ids_update_silo: "map Silo_id (update_silo s xs) = map Silo_id xs"
  by (induction xs) (auto simp: update_silo_def)

lemma image_ids_update_silo: "Silo_id ` set (update_silo s xs) = Silo_id ` set xs"
  using ids_update_silo [of s xs] by (metis set_map)

lemma set_update_silo: "x \<in> set (update_silo s xs) \<Longrightarrow> x = s \<or> x \<in> set xs"
  by (auto simp: update_silo_def split: if_splits)

lemma find_update_silo_same:
  "find (\<lambda>x. Silo_id x = Silo_id s) xs = Some t \<Longrightarrow>
   find (\<lambda>x. Silo_id x = Silo_id s) (update_silo s xs) = Some s"
  by (induction xs) (auto simp: update_silo_def split: if_splits)

lemma find_update_silo_other:
  "j \<noteq> Silo_id s \<Longrightarrow>
   find (\<lambda>x. Silo_id x = j) (update_silo s xs) = find (\<lambda>x. Silo_id x = j) xs"
  by (induction xs) (auto simp: update_silo_def)

subsection \<open>Every handler keeps the constraints\<close>

lemma store_ok_empty: "store_ok empty_db"
  by (simp add: store_ok_def empty_db_def)

lemma store_ok_create:
  assumes "store_ok d" "0 < new_id" "new_id \<notin> Silo_id ` set (silos d)"
  shows "store_ok (snd (create_silo d body_name new_id now))"
  using assms by (auto simp: create_silo_def store_ok_def Let_def)

lemma store_ok_rename:
  assumes "store_ok d"
  shows "store_ok (snd (rename_silo d silo_id body_name))"
proof (cases "get_silo d silo_id")
  case None
  then show ?thesis using assms by (simp add: rename_silo_def Let_def)
next
  case (Some s)
  then have s: "s \<in> set (silos d)" "Silo_id s = silo_id" using get_silo_Some by blast+
  show ?thesis
    using assms s Some
    by (auto simp: rename_silo_def Let_def store_ok_def ids_update_silo image_ids_update_silo
             dest!: set_update_silo split: option.splits)
qed

lemma store_ok_delete:
  assumes "store_ok d"
  shows "store_ok (snd (delete_silo d silo_id))"
proof (cases "get_silo d silo_id")
  case None
  then show ?thesis using assms by (simp add: delete_silo_def)
next
  case (Some s)
  show ?thesis
    using assms Some
    by (auto simp: delete_silo_def store_ok_def distinct_map_filter)
qed

lemma store_ok_cargar:
  assumes "store_ok d" "0 < new_id" "new_id \<notin> Operation_id ` set (operations d)"
  shows "store_ok (snd (cargar d silo_id body_amount cereal new_id now))"
proof (cases "get_silo d silo_id")
  case None
  then show ?thesis using assms by (simp add: cargar_def Let_def)
next
  case (Some s)
  then have s: "s \<in> set (silos d)" "Silo_id s = silo_id" using get_silo_Some by blast+
  show ?thesis
    using assms s Some
    by (auto simp: cargar_def Let_def store_ok_def ids_update_silo image_ids_update_silo
                   truthy_def
             dest!: set_update_silo split: option.splits if_splits)
qed

lemma store_ok_descargar:
  assumes "store_ok d" "0 < new_id" "new_id \<notin> Operation_id ` set (operations d)"
  shows "store_ok (snd (descargar d silo_id body_amount new_id now))"
proof (cases "get_silo d silo_id")
  case None
  then show ?thesis using assms by (simp add: descargar_def Let_def)
next
  case (Some s)
  then have s: "s \<in> set (silos d)" "Silo_id s = silo_id" using get_silo_Some by blast+
  show ?thesis
    using assms s Some
    by (auto simp: descargar_def Let_def store_ok_def ids_update_silo image_ids_update_silo
             dest!: set_update_silo split: option.splits if_splits)
qed

lemma reachable_store_ok: "reachable d \<Longrightarrow> store_ok d"
  by (induction rule: reachable.induct)
     (simp_all add: store_ok_empty store_ok_create store_ok_rename store_ok_delete
                    store_ok_cargar store_ok_descargar)

subsection \<open>The example stores are reachable\<close>

lemma create_example:
  "create_silo empty_db (Some ''  A '') 1 10 = (Inr 1, db_created)"
  by (simp add: create_silo_def empty_db_def db_created_def silo_A_def strip_def or_str_def
                isspace_def)

lemma cargar_example:
  "cargar db_created 1 (Some 100) (Some ''Soja'') 1 20 = (Inr (100, Some ''Soja''), db_loaded)"
  by (simp add: cargar_def db_created_def db_loaded_def silo_A_def op_load_def or_int_def
                get_silo_def truthy_def ALLOWED_CEREALES_def update_silo_def)

lemma descargar_example:
  "descargar db_loaded 1 (Some 100) 2 30 = (Inr 0, db_emptied)"
  by (simp add: descargar_def db_loaded_def db_emptied_def silo_A_def op_load_def
                op_unload_def or_int_def get_silo_def update_silo_def)

lemma reachable_created: "reachable db_created"
  using reachable.create [OF reachable.init, of 1 "Some ''  A ''" 10]
  by (simp add: create_example) (simp add: empty_db_def)

lemma reachable_loaded: "reachable db_loaded"
  using reachable.load [OF reachable_created, of 1 1 "Some 100" "Some ''Soja''" 20]
  by (simp add: cargar_example) (simp add: db_created_def)

lemma reachable_emptied: "reachable db_emptied"
  using reachable.unload [OF reachable_loaded, of 2 1 "Some 100" 30]
  by (simp add: descargar_example) (simp add: db_loaded_def op_load_def)

subsection \<open>Facts about single calls\<close>

lemma allowed_nonempty: "c \<in> ALLOWED_CEREALES \<Longrightarrow> c \<noteq> []"
  by (auto simp: ALLOWED_CEREALES_def)

lemma get_silo_update_same:
  "get_silo d (Silo_id s) = Some t \<Longrightarrow>
   get_silo \<lparr>silos = update_silo s (silos d), operations = ops\<rparr> (Silo_id s) = Some s"
  by (simp add: get_silo_def find_update_silo_same)

lemma get_silo_update_other:
  "j \<noteq> Silo_id s \<Longrightarrow>
   get_silo \<lparr>silos = update_silo s (silos d), operations = ops\<rparr> j = get_silo d j"
  by (simp add: get_silo_def find_update_silo_other)

lemma descargar_insufficient:
  assumes "get_silo d i = Some s" "0 \<le> Silo_balance_kg s" "Silo_balance_kg s < a"
  shows "descargar d i (Some a) k t = (Inl InsufficientStock, d)"
  using assms by (simp add: descargar_def or_int_Some)

lemma descargar_keeps_cereal:
  assumes "get_silo d i = Some s"
  shows "\<exists>s'. get_silo (snd (descargar d i amt k t)) i = Some s' \<and>
              Silo_cereal s' = Silo_cereal s"
proof -
  have i: "Silo_id s = i" using assms get_silo_Some by blast
  have "get_silo d (Silo_id (s\<lparr>Silo_balance_kg := b\<rparr>)) = Some s" for b
    using assms i by simp
  from get_silo_update_same [OF this]
  show ?thesis using assms i
    by (auto simp: descargar_def Let_def)
qed

lemma get_created: "get_silo db_created 1 = Some (silo_A None 0)"
  by (simp add: get_silo_def db_created_def silo_A_def)

lemma get_loaded: "get_silo db_loaded 1 = Some (silo_A (Some ''Soja'') 100)"
  by (simp add: get_silo_def db_loaded_def silo_A_def)

lemma get_emptied: "get_silo db_emptied 1 = Some (silo_A (Some ''Soja'') 0)"
  by (simp add: get_silo_def db_emptied_def silo_A_def)

lemma cargar_refuses_amount:
  "or_int amt 0 \<le> 0 \<Longrightarrow> cargar d i amt cer k t = (Inl InvalidInput, d)"
  by (simp add: cargar_def)

lemma cargar_keeps_cereal:
  assumes "get_silo d i = Some s" and "Silo_cereal s = Some c"
  shows "\<exists>s'. get_silo (snd (cargar d i amt cer k t)) i = Some s' \<and>
              Silo_cereal s' = Some c"
proof -
  have i: "Silo_id s = i" using assms(1) get_silo_Some by blast
  have "get_silo d (Silo_id (s\<lparr>Silo_balance_kg := b\<rparr>)) = Some s" for b
    using assms(1) i by simp
  from get_silo_update_same [OF this]
  show ?thesis using assms i
    by (auto simp: cargar_def Let_def)
qed

lemma cargar_returns_cereal:
  assumes "get_silo d i = Some s" and "Silo_cereal s = Some c"
    and "cargar d i amt cer k t = (Inr (b, x), d')"
  shows "x = Some c"
  using assms by (auto simp: cargar_def Let_def split: if_splits)

lemma cargar_again:
  "cargar db_emptied 1 (Some 20) (Some ''Soja'') 3 40 =
     (Inr (20, Some ''Soja''),
      \<lparr>silos = [silo_A (Some ''Soja'') 20],
       operations = [op_load, op_unload,
         \<lparr>Operation_id = 3, Operation_silo_id = 1, Operation_type = ''CARGA'',
          Operation_amount = 20, Operation_created_at = 40\<rparr>]\<rparr>)"
  by (simp add: cargar_def db_emptied_def silo_A_def or_int_def get_silo_def truthy_def
                update_silo_def)

subsection \<open>The balance is never negative\<close>

text \<open>
  Claim C1. In every store the handlers can produce, after any sequence of create, load,
  unload, rename and delete requests, the balance of every silo is a non-negative
  integer; an unload of more than the balance is refused with \<open>InsufficientStock\<close> and
  leaves the store as it was.
\<close>

theorem balance_never_negative:
  assumes "reachable d" and "s \<in> set (silos d)"
  shows "0 \<le> Silo_balance_kg s \<and>
         (\<forall>a k t. Silo_balance_kg s < a \<longrightarrow>
            descargar d (Silo_id s) (Some a) k t = (Inl InsufficientStock, d))"
proof -
  have ok: "store_ok d" using assms(1) by (rule reachable_store_ok)
  then have nonneg: "0 \<le> Silo_balance_kg s" using assms(2) by (simp add: store_ok_def)
  have "get_silo d (Silo_id s) = Some s"
    using ok assms(2) by (simp add: store_ok_def get_silo_distinct)
  then show ?thesis using nonneg by (simp add: descargar_insufficient)
qed

theorem balance_never_negative_witness:
  "reachable db_loaded \<and> silo_A (Some ''Soja'') 100 \<in> set (silos db_loaded) \<and>
   0 \<le> Silo_balance_kg (silo_A (Some ''Soja'') 100) \<and>
   descargar db_loaded 1 (Some 150) 2 30 = (Inl InsufficientStock, db_loaded)"
proof -
  have mem: "silo_A (Some ''Soja'') 100 \<in> set (silos db_loaded)"
    by (simp add: db_loaded_def)
  have "Silo_balance_kg (silo_A (Some ''Soja'') 100) < 150" by (simp add: silo_A_def)
  then show ?thesis
    using balance_never_negative [OF reachable_loaded mem] reachable_loaded mem
    by (simp add: silo_A_def)
qed

subsection \<open>The cereal lock\<close>

text \<open>
  Claim C2, as the code has it. For a silo of a store the handlers can produce whose
  cereal is set, and a load that supplies a different non-empty cereal:
  \<^item> with a positive amount the load fails with \<open>CerealMismatch\<close> and leaves the store
    unchanged, whatever the balance;
  \<^item> with an amount that is zero, negative or missing the load is refused with
    \<open>InvalidInput\<close>, store unchanged, whatever cereal the request supplies: the handler
    checks the amount before it looks at the silo or the cereal (see the counterexample);
  \<^item> no unload and no load, accepted or refused, changes the cereal of the silo, so the
    lock survives a balance of zero, and an accepted load answers with that cereal.
\<close>

theorem cereal_lock:
  assumes "reachable d" and "get_silo d i = Some s" and "Silo_cereal s = Some c"
    and "c' \<noteq> []" and "c' \<noteq> c"
  shows "(0 < a \<longrightarrow> cargar d i (Some a) (Some c') k t = (Inl CerealMismatch, d)) \<and>
         (a \<le> 0 \<longrightarrow> cargar d i (Some a) cer k t = (Inl InvalidInput, d)) \<and>
         cargar d i None cer k t = (Inl InvalidInput, d) \<and>
         (\<exists>s'. get_silo (snd (descargar d i amt k' t')) i = Some s' \<and>
               Silo_cereal s' = Some c) \<and>
         (\<exists>s'. get_silo (snd (cargar d i amt cer k t)) i = Some s' \<and>
               Silo_cereal s' = Some c) \<and>
         (\<forall>b x d'. cargar d i amt cer k t = (Inr (b, x), d') \<longrightarrow> x = Some c)"
proof -
  have "store_ok d" using assms(1) by (rule reachable_store_ok)
  moreover have "s \<in> set (silos d)" using assms(2) get_silo_Some by blast
  ultimately have "c \<in> ALLOWED_CEREALES"
    using assms(3) by (auto simp: store_ok_def split: option.splits)
  then have "c \<noteq> []" by (rule allowed_nonempty)
  then have mismatch: "0 < a \<longrightarrow> cargar d i (Some a) (Some c') k t = (Inl CerealMismatch, d)"
    using assms(2-5) by (simp add: cargar_def or_int_Some truthy_def)
  have nonpos: "a \<le> 0 \<longrightarrow> cargar d i (Some a) cer k t = (Inl InvalidInput, d)"
    by (simp add: cargar_refuses_amount or_int_Some)
  have missing: "cargar d i None cer k t = (Inl InvalidInput, d)"
    by (simp add: cargar_refuses_amount or_int_def)
  have unload: "\<exists>s'. get_silo (snd (descargar d i amt k' t')) i = Some s' \<and>
                      Silo_cereal s' = Some c"
    using descargar_keeps_cereal [OF assms(2)] assms(3) by simp
  have load: "\<exists>s'. get_silo (snd (cargar d i amt cer k t)) i = Some s' \<and>
                    Silo_cereal s' = Some c"
    using assms(2,3) by (rule cargar_keeps_cereal)
  have answer: "\<forall>b x d'. cargar d i amt cer k t = (Inr (b, x), d') \<longrightarrow> x = Some c"
    using cargar_returns_cereal [OF assms(2,3)] by blast
  from mismatch nonpos missing unload load answer show ?thesis by blast
qed

text \<open>
  The scenario of the specification: after the unload that empties silo A, a load of
  \<^verbatim>\<open>Maiz\<close> is still refused, with \<open>CerealMismatch\<close> for the amount 20 and with
  \<open>InvalidInput\<close> for the amount -5 or no amount; a load of 20 kg of \<^verbatim>\<open>Soja\<close> is accepted
  and the silo still holds \<^verbatim>\<open>Soja\<close>.
\<close>

theorem cereal_lock_witness:
  "reachable db_emptied \<and> get_silo db_emptied 1 = Some (silo_A (Some ''Soja'') 0) \<and>
   Silo_cereal (silo_A (Some ''Soja'') 0) = Some ''Soja'' \<and>
   cargar db_emptied 1 (Some 20) (Some ''Maiz'') 3 40 = (Inl CerealMismatch, db_emptied) \<and>
   cargar db_emptied 1 (Some (- 5)) (Some ''Maiz'') 3 40 = (Inl InvalidInput, db_emptied) \<and>
   cargar db_emptied 1 None (Some ''Maiz'') 3 40 = (Inl InvalidInput, db_emptied) \<and>
   get_silo (snd (descargar db_loaded 1 (Some 100) 2 30)) 1 = Some (silo_A (Some ''Soja'') 0) \<and>
   fst (cargar db_emptied 1 (Some 20) (Some ''Soja'') 3 40) = Inr (20, Some ''Soja'') \<and>
   get_silo (snd (cargar db_emptied 1 (Some 20) (Some ''Soja'') 3 40)) 1 =
     Some (silo_A (Some ''Soja'') 20)"
proof -
  have c: "Silo_cereal (silo_A (Some ''Soja'') 0) = Some ''Soja''"
    by (simp add: silo_A_def)
  have m: "''Maiz'' \<noteq> []" "''Maiz'' \<noteq> ''Soja''" by simp_all
  note lock = cereal_lock [OF reachable_emptied get_emptied c m]
  have "cargar db_emptied 1 (Some 20) (Some ''Maiz'') 3 40 = (Inl CerealMismatch, db_emptied)"
    using lock [where a = 20 and k = 3 and t = 40] by simp
  moreover have
    "cargar db_emptied 1 (Some (- 5)) (Some ''Maiz'') 3 40 = (Inl InvalidInput, db_emptied)"
    using lock [where a = "- 5" and cer = "Some ''Maiz''" and k = 3 and t = 40] by simp
  moreover have
    "cargar db_emptied 1 None (Some ''Maiz'') 3 40 = (Inl InvalidInput, db_emptied)"
    using lock [where cer = "Some ''Maiz''" and k = 3 and t = 40] by simp
  moreover have
    "get_silo (snd (descargar db_loaded 1 (Some 100) 2 30)) 1 = Some (silo_A (Some ''Soja'') 0)"
    by (simp add: descargar_example get_emptied)
  moreover have
    "fst (cargar db_emptied 1 (Some 20) (Some ''Soja'') 3 40) = Inr (20, Some ''Soja'')"
    using lock [where amt = "Some 20" and cer = "Some ''Soja''" and k = 3 and t = 40]
    by (simp add: cargar_again)
  moreover have
    "get_silo (snd (cargar db_emptied 1 (Some 20) (Some ''Soja'') 3 40)) 1 =
       Some (silo_A (Some ''Soja'') 20)"
    by (simp add: cargar_again get_silo_def silo_A_def)
  ultimately show ?thesis using reachable_emptied get_emptied c by simp
qed

text \<open>
  The claim as it is worded fails for a load of amount 0: silo A holds \<^verbatim>\<open>Soja\<close>, the load
  supplies \<^verbatim>\<open>Maiz\<close>, and the answer is \<open>InvalidInput\<close>.
\<close>

theorem cereal_lock_counterexample:
  "get_silo db_emptied 1 = Some (silo_A (Some ''Soja'') 0) \<and>
   Silo_cereal (silo_A (Some ''Soja'') 0) = Some ''Soja'' \<and>
   cargar db_emptied 1 (Some 0) (Some ''Maiz'') 3 40 = (Inl InvalidInput, db_emptied) \<and>
   fst (cargar db_emptied 1 (Some 0) (Some ''Maiz'') 3 40) \<noteq> Inl CerealMismatch"
  by (simp add: cargar_def or_int_def get_silo_def db_emptied_def silo_A_def)

subsection \<open>Choosing the cereal of a fresh silo\<close>

text \<open>
  Claim C4, as the code has it. The cereal is validated against the allowed set only while
  the silo is fresh (balance 0 and no cereal). For an existing silo and a request whose
  cereal is missing or outside the allowed set:
  \<^item> if the silo is fresh, the load fails with \<open>InvalidInput\<close>, whatever the amount;
  \<^item> if the silo already has a cereal, and the request supplies a non-empty value with a
    positive amount, the load fails with \<open>CerealMismatch\<close>.
  In both cases the store is unchanged.
\<close>

theorem fresh_load_needs_cereal:
  assumes "reachable d" and "get_silo d i = Some s" and "cereal \<notin> Some ` ALLOWED_CEREALES"
  shows "(Silo_balance_kg s = 0 \<and> Silo_cereal s = None \<longrightarrow>
            cargar d i amt cereal k t = (Inl InvalidInput, d)) \<and>
         (Silo_cereal s \<noteq> None \<and> truthy cereal \<and> 0 < a \<longrightarrow>
            cargar d i (Some a) cereal k t = (Inl CerealMismatch, d))"
proof -
  have fresh: "cargar d i amt cereal k t = (Inl InvalidInput, d)"
    if "Silo_balance_kg s = 0" "Silo_cereal s = None"
    using that assms(2,3) by (simp add: cargar_def Let_def)
  have locked: "cargar d i (Some a) cereal k t = (Inl CerealMismatch, d)"
    if set: "Silo_cereal s \<noteq> None" and given: "truthy cereal" and pos: "0 < a"
  proof -
    obtain c where c: "Silo_cereal s = Some c" using set by blast
    have "store_ok d" using assms(1) by (rule reachable_store_ok)
    moreover have "s \<in> set (silos d)" using assms(2) get_silo_Some by blast
    ultimately have al: "c \<in> ALLOWED_CEREALES"
      using c by (auto simp: store_ok_def split: option.splits)
    then have "truthy (Silo_cereal s)" using c allowed_nonempty by (simp add: truthy_def)
    moreover have "cereal \<noteq> Silo_cereal s" using al c assms(3) by auto
    ultimately show ?thesis
      using given pos assms(2) c by (simp add: cargar_def or_int_Some)
  qed
  show ?thesis using fresh locked by blast
qed

theorem fresh_load_needs_cereal_witness:
  "reachable db_created \<and> get_silo db_created 1 = Some (silo_A None 0) \<and>
   None \<notin> Some ` ALLOWED_CEREALES \<and> Some ''Avena'' \<notin> Some ` ALLOWED_CEREALES \<and>
   cargar db_created 1 (Some 100) None 1 20 = (Inl InvalidInput, db_created) \<and>
   cargar db_created 1 (Some 100) (Some ''Avena'') 1 20 = (Inl InvalidInput, db_created) \<and>
   reachable db_loaded \<and> get_silo db_loaded 1 = Some (silo_A (Some ''Soja'') 100) \<and>
   cargar db_loaded 1 (Some 10) (Some ''Avena'') 2 30 = (Inl CerealMismatch, db_loaded)"
proof -
  have n1: "None \<notin> Some ` ALLOWED_CEREALES" by auto
  have n2: "Some ''Avena'' \<notin> Some ` ALLOWED_CEREALES" by (simp add: ALLOWED_CEREALES_def)
  show ?thesis
    using fresh_load_needs_cereal [OF reachable_created get_created n1,
                                   where amt = "Some 100" and k = 1 and t = 20]
          fresh_load_needs_cereal [OF reachable_created get_created n2,
                                   where amt = "Some 100" and k = 1 and t = 20]
          fresh_load_needs_cereal [OF reachable_loaded get_loaded n2,
                                   where a = 10 and k = 2 and t = 30]
          reachable_created reachable_loaded get_created get_loaded n1 n2
    by (simp add: silo_A_def truthy_def)
qed

text \<open>
  The claim as it is worded fails on a silo that already holds \<^verbatim>\<open>Soja\<close>: a load that supplies
  \<^verbatim>\<open>Avena\<close>, which is not an allowed cereal, is answered with \<open>CerealMismatch\<close>.
\<close>

theorem fresh_load_needs_cereal_counterexample:
  "''Avena'' \<notin> ALLOWED_CEREALES \<and>
   cargar db_loaded 1 (Some 10) (Some ''Avena'') 2 30 = (Inl CerealMismatch, db_loaded) \<and>
   fst (cargar db_loaded 1 (Some 10) (Some ''Avena'') 2 30) \<noteq> Inl InvalidInput"
  by (simp add: cargar_def or_int_def get_silo_def db_loaded_def silo_A_def truthy_def
                ALLOWED_CEREALES_def)

subsection \<open>Stock implies a cereal\<close>

text \<open>
  Claim C10. In every store the handlers can produce, a silo with a positive balance has a
  cereal, and it is one of the allowed cereals; and a silo that has just been created has
  balance 0 and no cereal.
\<close>

theorem stock_implies_cereal:
  assumes "reachable d"
  shows "(\<forall>s \<in> set (silos d). 0 < Silo_balance_kg s \<longrightarrow>
            (\<exists>c. Silo_cereal s = Some c \<and> c \<in> ALLOWED_CEREALES)) \<and>
         (\<forall>n k t r d'. create_silo d n k t = (Inr r, d') \<longrightarrow>
            (\<exists>x. silos d' = silos d @ [x] \<and> Silo_id x = k \<and>
                  Silo_balance_kg x = 0 \<and> Silo_cereal x = None))"
proof -
  have "store_ok d" using assms by (rule reachable_store_ok)
  then have "\<forall>s \<in> set (silos d). 0 < Silo_balance_kg s \<longrightarrow>
               (\<exists>c. Silo_cereal s = Some c \<and> c \<in> ALLOWED_CEREALES)"
    by (auto simp: store_ok_def split: option.splits)
  moreover have "\<forall>n k t r d'. create_silo d n k t = (Inr r, d') \<longrightarrow>
            (\<exists>x. silos d' = silos d @ [x] \<and> Silo_id x = k \<and>
                  Silo_balance_kg x = 0 \<and> Silo_cereal x = None)"
    by (auto simp: create_silo_def Let_def split: if_splits)
  ultimately show ?thesis by blast
qed

theorem stock_implies_cereal_witness:
  "reachable db_loaded \<and> silo_A (Some ''Soja'') 100 \<in> set (silos db_loaded) \<and>
   0 < Silo_balance_kg (silo_A (Some ''Soja'') 100) \<and>
   Silo_cereal (silo_A (Some ''Soja'') 100) = Some ''Soja'' \<and>
   ''Soja'' \<in> ALLOWED_CEREALES \<and>
   create_silo empty_db (Some ''  A '') 1 10 = (Inr 1, db_created) \<and>
   silos db_created = silos empty_db @ [silo_A None 0]"
  using stock_implies_cereal [OF reachable_loaded] stock_implies_cereal [OF reachable.init]
        reachable_loaded create_example
  by (simp add: db_loaded_def db_created_def empty_db_def silo_A_def ALLOWED_CEREALES_def)

subsection \<open>Refused unloads\<close>

text \<open>
  Claim C5. An unload of more than the balance of the silo fails with \<open>InsufficientStock\<close>;
  the store is returned as it was, so the balance is unchanged and no operation is
  recorded. An amount that is missing, zero or negative fails with \<open>InvalidInput\<close> whether
  or not the silo exists, since it is checked before the lookup; with a positive amount,
  an absent id fails with \<open>NotFound\<close>.
\<close>

theorem unload_rejections:
  assumes "reachable d"
  shows "descargar d i None k t = (Inl InvalidInput, d) \<and>
         (a \<le> 0 \<longrightarrow> descargar d i (Some a) k t = (Inl InvalidInput, d)) \<and>
         (0 < a \<and> get_silo d i = None \<longrightarrow> descargar d i (Some a) k t = (Inl NotFound, d)) \<and>
         (\<forall>s. get_silo d i = Some s \<and> Silo_balance_kg s < a \<longrightarrow>
               descargar d i (Some a) k t = (Inl InsufficientStock, d))"
proof -
  have ok: "store_ok d" using assms by (rule reachable_store_ok)
  have "descargar d i (Some a) k t = (Inl InsufficientStock, d)"
    if g: "get_silo d i = Some s" and lt: "Silo_balance_kg s < a" for s
  proof -
    have "s \<in> set (silos d)" using g get_silo_Some by blast
    then have "0 \<le> Silo_balance_kg s" using ok by (simp add: store_ok_def)
    with g show ?thesis using lt by (rule descargar_insufficient)
  qed
  then show ?thesis
    by (simp add: descargar_def or_int_def)
qed

theorem unload_rejections_witness:
  "reachable db_loaded \<and>
   descargar db_loaded 1 None 2 30 = (Inl InvalidInput, db_loaded) \<and>
   descargar db_loaded 7 (Some (- 5)) 2 30 = (Inl InvalidInput, db_loaded) \<and>
   get_silo db_loaded 7 = None \<and>
   descargar db_loaded 7 (Some 5) 2 30 = (Inl NotFound, db_loaded) \<and>
   get_silo db_loaded 1 = Some (silo_A (Some ''Soja'') 100) \<and>
   descargar db_loaded 1 (Some 101) 2 30 = (Inl InsufficientStock, db_loaded)"
proof -
  have n: "get_silo db_loaded 7 = None"
    by (simp add: get_silo_def db_loaded_def silo_A_def)
  show ?thesis
    using unload_rejections [OF reachable_loaded, where i = 1 and a = 101 and k = 2 and t = 30]
          unload_rejections [OF reachable_loaded, where i = 7 and a = "- 5" and k = 2 and t = 30]
          unload_rejections [OF reachable_loaded, where i = 7 and a = 5 and k = 2 and t = 30]
          reachable_loaded n get_loaded
    by (simp add: silo_A_def)
qed

subsection \<open>Balance and ledger change together\<close>

text \<open>
  Claim C6. A load or unload either fails and returns the store exactly as it was (silos
  and operations), or succeeds, and then, in one step, the balance of the silo goes up
  (down) by the amount, every other silo is as before, and exactly one operation is
  appended, with the type and the amount of the call.
\<close>

theorem load_unload_atomic:
  "(case cargar d i amt c k t of
      (Inl e, d') \<Rightarrow> d' = d
    | (Inr (b, cer), d') \<Rightarrow>
        (\<exists>s. get_silo d i = Some s \<and> 0 < or_int amt 0 \<and>
              b = Silo_balance_kg s + or_int amt 0 \<and>
              get_silo d' i = Some (s\<lparr>Silo_cereal := cer, Silo_balance_kg := b\<rparr>) \<and>
              (\<forall>j. j \<noteq> i \<longrightarrow> get_silo d' j = get_silo d j) \<and>
              operations d' = operations d @
                [\<lparr>Operation_id = k, Operation_silo_id = i, Operation_type = ''CARGA'',
                  Operation_amount = or_int amt 0, Operation_created_at = t\<rparr>])) \<and>
   (case descargar d i amt k t of
      (Inl e, d') \<Rightarrow> d' = d
    | (Inr b, d') \<Rightarrow>
        (\<exists>s. get_silo d i = Some s \<and> 0 < or_int amt 0 \<and>
              b = Silo_balance_kg s - or_int amt 0 \<and>
              get_silo d' i = Some (s\<lparr>Silo_balance_kg := b\<rparr>) \<and>
              (\<forall>j. j \<noteq> i \<longrightarrow> get_silo d' j = get_silo d j) \<and>
              operations d' = operations d @
                [\<lparr>Operation_id = k, Operation_silo_id = i, Operation_type = ''DESCARGA'',
                  Operation_amount = or_int amt 0, Operation_created_at = t\<rparr>]))"
proof -
  have same: "get_silo \<lparr>silos = update_silo s' (silos d), operations = ops\<rparr> i = Some s'"
    if "get_silo d i = Some s" "Silo_id s' = i" for s s' ops
    using get_silo_update_same [of d s' s ops] that by simp
  have other: "get_silo \<lparr>silos = update_silo s' (silos d), operations = ops\<rparr> j = get_silo d j"
    if "Silo_id s' = i" "j \<noteq> i" for s' ops j
    using get_silo_update_other [of j s' d ops] that by simp
  have load: "case cargar d i amt c k t of
      (Inl e, d') \<Rightarrow> d' = d
    | (Inr (b, cer), d') \<Rightarrow>
        (\<exists>s. get_silo d i = Some s \<and> 0 < or_int amt 0 \<and>
              b = Silo_balance_kg s + or_int amt 0 \<and>
              get_silo d' i = Some (s\<lparr>Silo_cereal := cer, Silo_balance_kg := b\<rparr>) \<and>
              (\<forall>j. j \<noteq> i \<longrightarrow> get_silo d' j = get_silo d j) \<and>
              operations d' = operations d @
                [\<lparr>Operation_id = k, Operation_silo_id = i, Operation_type = ''CARGA'',
                  Operation_amount = or_int amt 0, Operation_created_at = t\<rparr>])"
  proof (cases "get_silo d i")
    case None
    then show ?thesis by (simp add: cargar_def Let_def)
  next
    case (Some s)
    then have "Silo_id s = i" using get_silo_Some by blast
    then show ?thesis
      using Some by (simp add: cargar_def Let_def same [OF Some] other)
  qed
  have unload: "case descargar d i amt k t of
      (Inl e, d') \<Rightarrow> d' = d
    | (Inr b, d') \<Rightarrow>
        (\<exists>s. get_silo d i = Some s \<and> 0 < or_int amt 0 \<and>
              b = Silo_balance_kg s - or_int amt 0 \<and>
              get_silo d' i = Some (s\<lparr>Silo_balance_kg := b\<rparr>) \<and>
              (\<forall>j. j \<noteq> i \<longrightarrow> get_silo d' j = get_silo d j) \<and>
              operations d' = operations d @
                [\<lparr>Operation_id = k, Operation_silo_id = i, Operation_type = ''DESCARGA'',
                  Operation_amount = or_int amt 0, Operation_created_at = t\<rparr>])"
  proof (cases "get_silo d i")
    case None
    then show ?thesis by (simp add: descargar_def Let_def)
  next
    case (Some s)
    then have "Silo_id s = i" using get_silo_Some by blast
    then show ?thesis
      using Some by (simp add: descargar_def Let_def same [OF Some] other)
  qed
  from load unload show ?thesis by (rule conjI)
qed

theorem load_unload_atomic_witness:
  "cargar db_created 1 (Some 100) (Some ''Soja'') 1 20 = (Inr (100, Some ''Soja''), db_loaded) \<and>
   get_silo db_created 1 = Some (silo_A None 0) \<and>
   get_silo db_loaded 1 = Some (silo_A (Some ''Soja'') 100) \<and>
   operations db_loaded = operations db_created @ [op_load] \<and>
   descargar db_loaded 1 (Some 100) 2 30 = (Inr 0, db_emptied) \<and>
   get_silo db_emptied 1 = Some (silo_A (Some ''Soja'') 0) \<and>
   operations db_emptied = operations db_loaded @ [op_unload] \<and>
   cargar db_loaded 1 (Some 10) (Some ''Maiz'') 2 30 = (Inl CerealMismatch, db_loaded) \<and>
   descargar db_loaded 1 (Some 150) 2 30 = (Inl InsufficientStock, db_loaded)"
proof -
  have refused:
    "cargar db_loaded 1 (Some 10) (Some ''Maiz'') 2 30 = (Inl CerealMismatch, db_loaded)"
    "descargar db_loaded 1 (Some 150) 2 30 = (Inl InsufficientStock, db_loaded)"
    by (simp_all add: cargar_def descargar_def or_int_def get_loaded silo_A_def truthy_def)
  have ledger:
    "operations db_loaded = operations db_created @ [op_load]"
    "operations db_emptied = operations db_loaded @ [op_unload]"
    by (simp_all add: db_created_def db_loaded_def db_emptied_def)
  show ?thesis
    using load_unload_atomic [where d = db_created and i = 1 and amt = "Some 100"
                                and c = "Some ''Soja''" and k = 1 and t = 20]
          load_unload_atomic [where d = db_loaded and i = 1 and amt = "Some 100"
                                and c = "Some ''Soja''" and k = 2 and t = 30]
          cargar_example descargar_example get_created get_loaded get_emptied refused ledger
    by simp
qed

subsection \<open>The summary\<close>

lemma set_order_by_desc: "set (order_by_desc ps) = set ps"
  by (simp add: order_by_desc_def)

lemma mset_order_by_desc: "mset (order_by_desc ps) = mset ps"
  by (simp add: order_by_desc_def)

lemma sorted_order_by_desc:
  assumes "distinct (map Operation_id ps)"
  shows "sorted_wrt more_recent (order_by_desc ps)"
proof -
  let ?f = "\<lambda>p. (- Operation_created_at p, - Operation_id p)"
  let ?qs = "order_by_desc ps"
  have sorted: "sorted (map ?f ?qs)" by (simp add: order_by_desc_def)
  have "mset (map Operation_id ?qs) = mset (map Operation_id ps)"
    by (simp add: mset_order_by_desc)
  then have "distinct (map Operation_id ?qs)"
    using assms by (metis mset_eq_imp_distinct_iff)
  then have "distinct ?qs" and inj: "inj_on Operation_id (set ?qs)"
    by (simp_all add: distinct_map)
  moreover have "inj_on ?f (set ?qs)"
    using inj by (auto simp: inj_on_def)
  ultimately have "distinct (map ?f ?qs)" by (simp add: distinct_map)
  with sorted have "sorted_wrt (<) (map ?f ?qs)" by (simp add: strict_sorted_iff)
  then have "sorted_wrt (\<lambda>a b. ?f a < ?f b) ?qs" by (simp add: sorted_wrt_map)
  then show ?thesis
    by (rule sorted_wrt_mono_rel [rotated]) (auto simp: more_recent_def)
qed

lemma resumen_loop_raises:
  "p \<in> set ps \<Longrightarrow> resumen_entry d p = Inl e \<Longrightarrow> resumen_loop d ps data = Inl AttributeError"
proof (induction ps arbitrary: data)
  case Nil
  then show ?case by simp
next
  case (Cons q qs)
  show ?case
  proof (cases "resumen_entry d q")
    case (Inl e')
    then show ?thesis by (cases e') simp
  next
    case (Inr x)
    with Cons.prems have "p \<in> set qs" by auto
    then show ?thesis using Cons.IH Cons.prems(2) Inr by simp
  qed
qed

lemma resumen_loop_ok:
  "\<forall>p \<in> set ps. Operation_silo_id p \<noteq> 0 \<and> get_silo d (Operation_silo_id p) \<noteq> None \<Longrightarrow>
   resumen_loop d ps data = Inr (data @ map (point_in_time_entry d) ps)"
proof (induction ps arbitrary: data)
  case Nil
  then show ?case by simp
next
  case (Cons q qs)
  then obtain s where s: "get_silo d (Operation_silo_id q) = Some s" by auto
  have "resumen_entry d q = Inr (point_in_time_entry d q)"
    using Cons.prems s by (simp add: resumen_entry_def point_in_time_entry_def)
  then show ?case using Cons by simp
qed

lemma store_ok_refers:
  assumes "store_ok d" and "p \<in> set (operations d)"
  shows "Operation_silo_id p \<noteq> 0 \<and> (\<exists>s. get_silo d (Operation_silo_id p) = Some s)"
proof -
  from assms have "Operation_silo_id p \<in> Silo_id ` set (silos d)"
    by (simp add: store_ok_def)
  then obtain s where s: "s \<in> set (silos d)" "Silo_id s = Operation_silo_id p" by auto
  have "0 < Silo_id s" using assms(1) s(1) by (simp add: store_ok_def)
  moreover have "get_silo d (Silo_id s) = Some s"
    using assms(1) s(1) by (simp add: store_ok_def get_silo_distinct)
  ultimately show ?thesis using s(2) by auto
qed

lemma store_ok_resumen:
  assumes "store_ok d"
  shows "resumen d = Inr (map (point_in_time_entry d) (order_by_desc (operations d)))"
proof -
  have "\<forall>p \<in> set (order_by_desc (operations d)).
          Operation_silo_id p \<noteq> 0 \<and> get_silo d (Operation_silo_id p) \<noteq> None"
    using store_ok_refers [OF assms] by (auto simp: set_order_by_desc)
  from resumen_loop_ok [OF this] show ?thesis by (simp add: resumen_def)
qed

lemma order_emptied: "order_by_desc (operations db_emptied) = [op_unload, op_load]"
  by (simp add: order_by_desc_def db_emptied_def op_load_def op_unload_def)

lemma resumen_emptied:
  "resumen db_emptied =
     Inr [\<lparr>entry_id = 2, entry_silo_id = 1, entry_silo_name = Some ''A'',
           entry_type = ''DESCARGA'', entry_amount = 100, entry_timestamp = 30,
           entry_balance_kg_post = Some 0\<rparr>,
          \<lparr>entry_id = 1, entry_silo_id = 1, entry_silo_name = Some ''A'',
           entry_type = ''CARGA'', entry_amount = 100, entry_timestamp = 20,
           entry_balance_kg_post = Some 0\<rparr>]"
  by (simp add: resumen_def order_emptied resumen_entry_def op_load_def op_unload_def
                get_emptied silo_A_def)

text \<open>
  Claim C3. The claim asks that an operation whose silo is gone be listed with a null
  name and a null balance. The code does so for the name only: the balance is read from
  the result of the lookup whenever \<^verbatim>\<open>o.silo_id\<close> is not zero, so one such operation makes
  the whole summary end with \<^verbatim>\<open>AttributeError\<close> instead of a list of entries.
\<close>

theorem resumen_orphan_raises:
  assumes "p \<in> set (operations d)" and "Operation_silo_id p \<noteq> 0"
    and "get_silo d (Operation_silo_id p) = None"
  shows "resumen d = Inl AttributeError"
proof -
  have "resumen_entry d p = Inl AttributeError"
    using assms(2,3) by (simp add: resumen_entry_def)
  moreover have "p \<in> set (order_by_desc (operations d))"
    using assms(1) by (simp add: set_order_by_desc)
  ultimately show ?thesis
    unfolding resumen_def by (rule resumen_loop_raises [rotated])
qed

theorem resumen_orphan_raises_witness:
  "op_load \<in> set (operations db_orphan) \<and> Operation_silo_id op_load = 1 \<and>
   get_silo db_orphan 1 = None \<and> resumen db_orphan = Inl AttributeError"
proof -
  have m: "op_load \<in> set (operations db_orphan)" by (simp add: db_orphan_def)
  have z: "Operation_silo_id op_load \<noteq> 0" by (simp add: op_load_def)
  have g: "get_silo db_orphan (Operation_silo_id op_load) = None"
    by (simp add: get_silo_def db_orphan_def)
  show ?thesis
    using resumen_orphan_raises [OF m z g] m g by (simp add: op_load_def)
qed

text \<open>
  Claim C7. In every store the handlers can produce, the summary succeeds and lists all
  the operations, each exactly once, the more recent first (by creation time, then by
  id); the entry of an operation carries the operation's own fields together with the
  name and the balance that its silo has in the store at the time of the call.
\<close>

theorem resumen_point_in_time:
  assumes "reachable d"
  shows "\<exists>ps es. resumen d = Inr es \<and> es = map (point_in_time_entry d) ps \<and>
           mset ps = mset (operations d) \<and> sorted_wrt more_recent ps \<and>
           (\<forall>e \<in> set es. \<exists>s. get_silo d (entry_silo_id e) = Some s \<and>
                               entry_silo_name e = Some (Silo_name s) \<and>
                               entry_balance_kg_post e = Some (Silo_balance_kg s))"
proof -
  have ok: "store_ok d" using assms by (rule reachable_store_ok)
  let ?ps = "order_by_desc (operations d)"
  let ?es = "map (point_in_time_entry d) ?ps"
  have "resumen d = Inr ?es" using ok by (rule store_ok_resumen)
  moreover have "mset ?ps = mset (operations d)" by (rule mset_order_by_desc)
  moreover have "sorted_wrt more_recent ?ps"
    using ok by (simp add: store_ok_def sorted_order_by_desc)
  moreover have "\<forall>e \<in> set ?es. \<exists>s. get_silo d (entry_silo_id e) = Some s \<and>
                               entry_silo_name e = Some (Silo_name s) \<and>
                               entry_balance_kg_post e = Some (Silo_balance_kg s)"
  proof
    fix e assume "e \<in> set ?es"
    then obtain p where p: "p \<in> set (operations d)" "e = point_in_time_entry d p"
      by (auto simp: set_order_by_desc)
    from store_ok_refers [OF ok p(1)]
    obtain s where "get_silo d (Operation_silo_id p) = Some s" by blast
    then show "\<exists>s. get_silo d (entry_silo_id e) = Some s \<and>
                    entry_silo_name e = Some (Silo_name s) \<and>
                    entry_balance_kg_post e = Some (Silo_balance_kg s)"
      using p(2) by (simp add: point_in_time_entry_def)
  qed
  ultimately show ?thesis by blast
qed

text \<open>
  After the load of 100 and the unload of 100, the unload comes first, and both entries
  show the balance of now, 0, not the 100 that followed the load.
\<close>

theorem resumen_point_in_time_witness:
  "reachable db_emptied \<and> more_recent op_unload op_load \<and>
   resumen db_emptied =
     Inr [\<lparr>entry_id = 2, entry_silo_id = 1, entry_silo_name = Some ''A'',
           entry_type = ''DESCARGA'', entry_amount = 100, entry_timestamp = 30,
           entry_balance_kg_post = Some 0\<rparr>,
          \<lparr>entry_id = 1, entry_silo_id = 1, entry_silo_name = Some ''A'',
           entry_type = ''CARGA'', entry_amount = 100, entry_timestamp = 20,
           entry_balance_kg_post = Some 0\<rparr>]"
  using resumen_point_in_time [OF reachable_emptied] reachable_emptied resumen_emptied
  by (simp add: more_recent_def op_load_def op_unload_def)

subsection \<open>Deleting a silo\<close>

lemma find_filter_same:
  "find (\<lambda>x. Silo_id x = i) (filter (\<lambda>x. Silo_id x \<noteq> i) xs) = None"
  by (simp add: find_None_iff)

lemma find_filter_other:
  "j \<noteq> i \<Longrightarrow> find (\<lambda>x. Silo_id x = j) (filter (\<lambda>x. Silo_id x \<noteq> i) xs) =
               find (\<lambda>x. Silo_id x = j) xs"
  by (induction xs) auto

lemma delete_silo_Some:
  "get_silo d i = Some s \<Longrightarrow>
   delete_silo d i =
     (Inr (), \<lparr>silos = filter (\<lambda>x. Silo_id x \<noteq> i) (silos d),
               operations = filter (\<lambda>p. Operation_silo_id p \<noteq> i) (operations d)\<rparr>)"
  using get_silo_Some [of d i s] by (simp add: delete_silo_def)

lemma entry_silo_id_point:
  "entry_silo_id (point_in_time_entry d p) = Operation_silo_id p"
  by (simp add: point_in_time_entry_def)

lemma entry_silo_ids:
  "entry_silo_id ` set (map (point_in_time_entry d) (order_by_desc ps)) =
   Operation_silo_id ` set ps"
  by (simp add: image_image entry_silo_id_point set_order_by_desc)

lemma resumen_empty: "resumen empty_db = Inr []"
  by (simp add: resumen_def order_by_desc_def empty_db_def)

lemma delete_loaded: "delete_silo db_loaded 1 = (Inr (), empty_db)"
  by (simp add: delete_silo_def get_loaded) (simp add: db_loaded_def silo_A_def op_load_def empty_db_def)

text \<open>
  Claim C8. In every store the handlers can produce, deleting an absent id answers
  \<^verbatim>\<open>NotFound\<close> and leaves the store as it was; deleting an existing silo succeeds whatever
  its balance and cereal, after which the silo is gone, every other silo is as before,
  the operations left are exactly those of the other silos, and the summary succeeds
  without any entry for the deleted silo.
\<close>

theorem delete_cascades:
  assumes "reachable d"
  shows "(get_silo d i = None \<longrightarrow> delete_silo d i = (Inl NotFound, d)) \<and>
         (\<forall>s. get_silo d i = Some s \<longrightarrow>
            (\<exists>d' es. delete_silo d i = (Inr (), d') \<and> get_silo d' i = None \<and>
               (\<forall>j. j \<noteq> i \<longrightarrow> get_silo d' j = get_silo d j) \<and>
               operations d' = filter (\<lambda>p. Operation_silo_id p \<noteq> i) (operations d) \<and>
               resumen d' = Inr es \<and> i \<notin> entry_silo_id ` set es))"
proof (intro conjI allI impI)
  assume "get_silo d i = None"
  then show "delete_silo d i = (Inl NotFound, d)" by (simp add: delete_silo_def)
next
  fix s assume g: "get_silo d i = Some s"
  let ?d' = "\<lparr>silos = filter (\<lambda>x. Silo_id x \<noteq> i) (silos d),
              operations = filter (\<lambda>p. Operation_silo_id p \<noteq> i) (operations d)\<rparr>"
  let ?es = "map (point_in_time_entry ?d') (order_by_desc (operations ?d'))"
  have del: "delete_silo d i = (Inr (), ?d')" using g by (rule delete_silo_Some)
  have "reachable (snd (delete_silo d i))" using assms by (rule reachable.delete)
  then have "store_ok ?d'" using del by (simp add: reachable_store_ok)
  then have res: "resumen ?d' = Inr ?es" by (rule store_ok_resumen)
  have gone: "get_silo ?d' i = None" by (simp add: get_silo_def find_filter_same)
  have others: "\<forall>j. j \<noteq> i \<longrightarrow> get_silo ?d' j = get_silo d j"
    by (simp add: get_silo_def find_filter_other)
  have absent: "i \<notin> entry_silo_id ` set ?es"
    by (simp only: entry_silo_ids) auto
  show "\<exists>d' es. delete_silo d i = (Inr (), d') \<and> get_silo d' i = None \<and>
               (\<forall>j. j \<noteq> i \<longrightarrow> get_silo d' j = get_silo d j) \<and>
               operations d' = filter (\<lambda>p. Operation_silo_id p \<noteq> i) (operations d) \<and>
               resumen d' = Inr es \<and> i \<notin> entry_silo_id ` set es"
    using del res gone others absent by (intro exI [of _ ?d'] exI [of _ ?es]) simp
qed

text \<open>
  Deleting silo A, loaded with 100 kg of Soja, leaves the empty store and an empty
  summary; deleting the unknown id 7 is refused.
\<close>

theorem delete_cascades_witness:
  "reachable db_loaded \<and> get_silo db_loaded 1 = Some (silo_A (Some ''Soja'') 100) \<and>
   delete_silo db_loaded 1 = (Inr (), empty_db) \<and> resumen empty_db = Inr [] \<and>
   get_silo db_loaded 7 = None \<and> delete_silo db_loaded 7 = (Inl NotFound, db_loaded)"
proof -
  have none: "get_silo db_loaded 7 = None"
    by (simp add: get_silo_def db_loaded_def silo_A_def)
  from delete_cascades [OF reachable_loaded, where i = 7] none
  have "delete_silo db_loaded 7 = (Inl NotFound, db_loaded)" by simp
  moreover from delete_cascades [OF reachable_loaded, where i = 1] get_loaded
  obtain d' es where "delete_silo db_loaded 1 = (Inr (), d')" "resumen d' = Inr es"
    "1 \<notin> entry_silo_id ` set es" by blast
  then have "delete_silo db_loaded 1 = (Inr (), empty_db) \<and> resumen empty_db = Inr []"
    by (simp add: delete_loaded resumen_empty)
  ultimately show ?thesis using reachable_loaded get_loaded none by simp
qed

subsection \<open>Renaming a silo\<close>

lemma create_two:
  "create_silo db_loaded (Some ''B'') 2 25 = (Inr 2, db_two)"
  by (simp add: create_silo_def db_loaded_def db_two_def silo_A_def silo_B_def strip_def
                or_str_def isspace_def)

lemma reachable_two: "reachable db_two"
  using reachable.create [OF reachable_loaded, of 2 "Some ''B''" 25]
  by (simp add: create_two) (simp add: db_loaded_def silo_A_def)

lemma get_two: "get_silo db_two 1 = Some (silo_A (Some ''Soja'') 100)"
  by (simp add: get_silo_def db_two_def silo_A_def)

lemma rename_two:
  "rename_silo db_two 1 (Some '' A2 '') = (Inr (), db_renamed)"
  by (simp add: rename_silo_def name_taken_def db_two_def db_renamed_def silo_A_def silo_B_def
                strip_def or_str_def isspace_def get_silo_def update_silo_def)

lemma resumen_renamed:
  "resumen db_renamed =
     Inr [\<lparr>entry_id = 1, entry_silo_id = 1, entry_silo_name = Some ''A2'',
           entry_type = ''CARGA'', entry_amount = 100, entry_timestamp = 20,
           entry_balance_kg_post = Some 100\<rparr>]"
  by (simp add: resumen_def order_by_desc_def db_renamed_def resumen_entry_def op_load_def
                get_silo_def silo_A_def silo_B_def)

lemma strip_examples:
  "strip (or_str (Some ''B'') []) = ''B''" "strip (or_str (Some '' A2 '') []) = ''A2''"
  "strip (or_str (Some ''  '') []) = []" "strip (or_str None []) = []"
  "strip (or_str (Some [CHR 0x20, CHR 0xA0, CHR 0x85]) []) = []"
  by (simp_all add: strip_def or_str_def isspace_def)

text \<open>
  Claim C9, amended. In every store the handlers can produce: a new name that is empty
  after trimming is refused with \<^verbatim>\<open>InvalidInput\<close>, whether the id exists or not; with a
  non-empty new name an absent id is refused with \<^verbatim>\<open>NotFound\<close>, and a name that another
  silo carries with \<^verbatim>\<open>DuplicateName\<close>; every refusal leaves the store as it was. Otherwise
  the call succeeds: the silo keeps its id, cereal, balance and creation time and carries
  the trimmed new name, every other silo and all the operations are unchanged, and the
  summary shows the new name on every entry of that silo.
\<close>

theorem rename_frame:
  assumes "reachable d"
  shows "(strip (or_str n []) = [] \<longrightarrow> rename_silo d i n = (Inl InvalidInput, d)) \<and>
         (strip (or_str n []) \<noteq> [] \<and> get_silo d i = None \<longrightarrow>
            rename_silo d i n = (Inl NotFound, d)) \<and>
         (\<forall>s. strip (or_str n []) \<noteq> [] \<and> get_silo d i = Some s \<and>
              (\<exists>x \<in> set (silos d). Silo_id x \<noteq> i \<and> Silo_name x = strip (or_str n [])) \<longrightarrow>
            rename_silo d i n = (Inl DuplicateName, d)) \<and>
         (\<forall>s. strip (or_str n []) \<noteq> [] \<and> get_silo d i = Some s \<and>
              \<not> (\<exists>x \<in> set (silos d). Silo_id x \<noteq> i \<and> Silo_name x = strip (or_str n [])) \<longrightarrow>
            (\<exists>d' es. rename_silo d i n = (Inr (), d') \<and>
               get_silo d' i = Some (s\<lparr>Silo_name := strip (or_str n [])\<rparr>) \<and>
               (\<forall>j. j \<noteq> i \<longrightarrow> get_silo d' j = get_silo d j) \<and>
               operations d' = operations d \<and> resumen d' = Inr es \<and>
               (\<forall>e \<in> set es. entry_silo_id e = i \<longrightarrow>
                  entry_silo_name e = Some (strip (or_str n [])))))"
proof (intro conjI allI impI)
  assume "strip (or_str n []) = []"
  then show "rename_silo d i n = (Inl InvalidInput, d)" by (simp add: rename_silo_def)
next
  assume "strip (or_str n []) \<noteq> [] \<and> get_silo d i = None"
  then show "rename_silo d i n = (Inl NotFound, d)" by (simp add: rename_silo_def)
next
  fix s
  assume "strip (or_str n []) \<noteq> [] \<and> get_silo d i = Some s \<and>
          (\<exists>x \<in> set (silos d). Silo_id x \<noteq> i \<and> Silo_name x = strip (or_str n []))"
  then show "rename_silo d i n = (Inl DuplicateName, d)"
    by (simp add: rename_silo_def name_taken_def)
next
  fix s
  let ?new = "strip (or_str n [])"
  assume a: "?new \<noteq> [] \<and> get_silo d i = Some s \<and>
          \<not> (\<exists>x \<in> set (silos d). Silo_id x \<noteq> i \<and> Silo_name x = ?new)"
  let ?s' = "s\<lparr>Silo_name := ?new\<rparr>"
  let ?d' = "d\<lparr>silos := update_silo ?s' (silos d)\<rparr>"
  have d'_eq: "?d' = \<lparr>silos = update_silo ?s' (silos d), operations = operations d\<rparr>"
    by simp
  let ?es = "map (point_in_time_entry ?d') (order_by_desc (operations ?d'))"
  have i: "Silo_id s = i" using a get_silo_Some by blast
  have ren: "rename_silo d i n = (Inr (), ?d')"
    using a by (simp add: rename_silo_def name_taken_def Let_def)
  have "reachable (snd (rename_silo d i n))" using assms by (rule reachable.rename)
  then have "store_ok ?d'" using ren by (simp add: reachable_store_ok)
  then have res: "resumen ?d' = Inr ?es" by (rule store_ok_resumen)
  have "get_silo d (Silo_id ?s') = Some s" using a i by simp
  from get_silo_update_same [OF this, of "operations d"]
  have same: "get_silo ?d' i = Some ?s'" using i by (simp add: d'_eq)
  have others: "\<forall>j. j \<noteq> i \<longrightarrow> get_silo ?d' j = get_silo d j"
    using get_silo_update_other [of _ ?s' d "operations d"] i by (simp add: d'_eq)
  have names: "\<forall>e \<in> set ?es. entry_silo_id e = i \<longrightarrow> entry_silo_name e = Some ?new"
    using same by (auto simp: set_order_by_desc point_in_time_entry_def)
  show "\<exists>d' es. rename_silo d i n = (Inr (), d') \<and>
               get_silo d' i = Some (s\<lparr>Silo_name := ?new\<rparr>) \<and>
               (\<forall>j. j \<noteq> i \<longrightarrow> get_silo d' j = get_silo d j) \<and>
               operations d' = operations d \<and> resumen d' = Inr es \<and>
               (\<forall>e \<in> set es. entry_silo_id e = i \<longrightarrow> entry_silo_name e = Some ?new)"
    using ren res same others names by (intro exI [of _ ?d'] exI [of _ ?es]) simp
qed

text \<open>
  With silos A (100 kg of Soja, one load) and B: a missing name and a name made of a
  space, a no-break space and a next-line character are refused, the unknown
  id 7 is not found, renaming A to \<^verbatim>\<open>"B"\<close> is a duplicate, and renaming A to \<^verbatim>\<open>" A2 "\<close>
  changes the name alone, which the summary then shows.
\<close>

theorem rename_frame_witness:
  "reachable db_two \<and> get_silo db_two 1 = Some (silo_A (Some ''Soja'') 100) \<and>
   rename_silo db_two 1 None = (Inl InvalidInput, db_two) \<and>
   rename_silo db_two 1 (Some [CHR 0x20, CHR 0xA0, CHR 0x85]) = (Inl InvalidInput, db_two) \<and>
   get_silo db_two 7 = None \<and> rename_silo db_two 7 (Some ''B'') = (Inl NotFound, db_two) \<and>
   silo_B \<in> set (silos db_two) \<and> Silo_name silo_B = ''B'' \<and>
   rename_silo db_two 1 (Some ''B'') = (Inl DuplicateName, db_two) \<and>
   rename_silo db_two 1 (Some '' A2 '') = (Inr (), db_renamed) \<and>
   get_silo db_renamed 1 = Some ((silo_A (Some ''Soja'') 100)\<lparr>Silo_name := ''A2''\<rparr>) \<and>
   get_silo db_renamed 2 = Some silo_B \<and> operations db_renamed = operations db_two \<and>
   resumen db_renamed =
     Inr [\<lparr>entry_id = 1, entry_silo_id = 1, entry_silo_name = Some ''A2'',
           entry_type = ''CARGA'', entry_amount = 100, entry_timestamp = 20,
           entry_balance_kg_post = Some 100\<rparr>]"
proof -
  have none: "get_silo db_two 7 = None"
    by (simp add: get_silo_def db_two_def silo_A_def silo_B_def)
  have b: "silo_B \<in> set (silos db_two)" "Silo_name silo_B = ''B''" "Silo_id silo_B \<noteq> 1"
    by (simp_all add: db_two_def silo_B_def)
  have free: "\<not> (\<exists>x \<in> set (silos db_two). Silo_id x \<noteq> 1 \<and> Silo_name x = ''A2'')"
    by (simp add: db_two_def silo_A_def silo_B_def)
  have "rename_silo db_two 1 None = (Inl InvalidInput, db_two)"
    using rename_frame [OF reachable_two, where i = 1 and n = None]
    by (simp add: strip_examples)
  moreover have
    "rename_silo db_two 1 (Some [CHR 0x20, CHR 0xA0, CHR 0x85]) = (Inl InvalidInput, db_two)"
    using rename_frame [OF reachable_two, where i = 1 and n = "Some [CHR 0x20, CHR 0xA0, CHR 0x85]"]
    by (simp add: strip_examples)
  moreover have "rename_silo db_two 7 (Some ''B'') = (Inl NotFound, db_two)"
    using rename_frame [OF reachable_two, where i = 7 and n = "Some ''B''"] none
    by (simp add: strip_examples)
  moreover have "rename_silo db_two 1 (Some ''B'') = (Inl DuplicateName, db_two)"
    using rename_frame [OF reachable_two, where i = 1 and n = "Some ''B''"] get_two b
    by (auto simp: strip_examples)
  moreover have "\<exists>d'. rename_silo db_two 1 (Some '' A2 '') = (Inr (), d') \<and>
      get_silo d' 1 = Some ((silo_A (Some ''Soja'') 100)\<lparr>Silo_name := ''A2''\<rparr>) \<and>
      get_silo d' 2 = get_silo db_two 2 \<and> operations d' = operations db_two"
    using rename_frame [OF reachable_two, where i = 1 and n = "Some '' A2 ''"] get_two free
    by (auto simp: strip_examples)
  moreover have "get_silo db_two 2 = Some silo_B"
    by (simp add: get_silo_def db_two_def silo_A_def silo_B_def)
  ultimately show ?thesis
    using reachable_two get_two none b resumen_renamed by (auto simp: rename_two)
qed

text \<open>
  The claim as worded promises \<^verbatim>\<open>NotFound\<close> for an absent id. The handler tests the new
  name before it looks the silo up, so a blank name for the unknown id 7 is answered with
  \<^verbatim>\<open>InvalidInput\<close>.
\<close>

theorem rename_frame_counterexample:
  "get_silo db_created 7 = None \<and>
   rename_silo db_created 7 (Some ''  '') = (Inl InvalidInput, db_created) \<and>
   rename_silo db_created 7 (Some ''  '') \<noteq> (Inl NotFound, db_created)"
  by (simp add: rename_silo_def strip_examples get_silo_def db_created_def silo_A_def)

end
